theory Spec2Isabelle
  imports Main
begin

section \<open>Domain model (types/models.ts)\<close>

text \<open>
  A \<open>Date\<close> is represented by its time value, the number of milliseconds since the
  epoch. Ids are JavaScript numbers; the model covers the integers (ids are assigned as
  list lengths plus one), fractional ids and NaN are not represented.
\<close>

type_synonym timestamp = int

record PostModel =
  id :: int
  title :: string
  description :: string
  body :: string
  createdBy :: string
  created :: timestamp
  updated :: timestamp

record CreatePostModel =
  title :: string
  description :: string
  body :: string
  createdBy :: string

record UpdatePostModel =
  id :: int
  title :: string
  description :: string
  body :: string

section \<open>Promises\<close>

text \<open>
  Every operation of \<open>IStoreRepository\<close> returns a promise. A promise settles by
  resolving with a value or by rejecting with an error (a \<open>throw\<close> inside an
  \<open>async\<close> method rejects its promise); a promise whose executor returns without
  calling \<open>resolve\<close> stays pending for ever.
\<close>

datatype error = Error string

datatype 'a promise = Resolved 'a | Rejected error | Pending

section \<open>The parts of the JavaScript library the repositories use\<close>

subsection \<open>\<open>Array.prototype.findIndex\<close> and \<open>splice(index, 1)\<close>\<close>

text \<open>\<open>None\<close> stands for the result \<open>-1\<close> of \<open>findIndex\<close>.\<close>

fun findIndex :: "('a \<Rightarrow> bool) \<Rightarrow> 'a list \<Rightarrow> nat option" where
  "findIndex P [] = None"
| "findIndex P (x # xs) = (if P x then Some 0 else map_option Suc (findIndex P xs))"

definition splice1 :: "nat \<Rightarrow> 'a list \<Rightarrow> 'a list" where
  "splice1 index xs = take index xs @ drop (Suc index) xs"

subsection \<open>\<open>String(v)\<close> and \<open>Number(s)\<close>\<close>

definition digit :: "nat \<Rightarrow> char" where
  "digit d = ''0123456789'' ! d"

fun digits :: "nat \<Rightarrow> string" where
  "digits n = (if n < 10 then [digit n] else digits (n div 10) @ [digit (n mod 10)])"

declare digits.simps [simp del]

datatype js_value = JNum int | JStr string

text \<open>
  \<open>String\<close> of an integer is its decimal numeral, with a minus sign when negative;
  \<open>String\<close> of a string is that string.
\<close>

fun js_String :: "js_value \<Rightarrow> string" where
  "js_String (JNum i) = (if i < 0 then CHR ''-'' # digits (nat (- i)) else digits (nat i))"
| "js_String (JStr s) = s"

definition is_digit :: "char \<Rightarrow> bool" where
  "is_digit c = (c \<in> set ''0123456789'')"

definition digit_value :: "char \<Rightarrow> nat" where
  "digit_value c = of_char c - 48"

definition decimal_value :: "string \<Rightarrow> nat" where
  "decimal_value s = foldl (\<lambda>acc c. acc * 10 + digit_value c) 0 s"

text \<open>
  \<open>Number\<close> of a decimal numeral, with or without a leading minus sign, is the integer
  it denotes, and \<open>Number("")\<close> is \<open>0\<close>. For any other text JavaScript yields NaN or reads
  another numeral syntax; the model has no such number and returns \<open>0\<close> there. Every id
  the in-memory repository stores is a decimal numeral (\<open>mem_run_canonical\<close> below).
\<close>

definition js_Number :: "string \<Rightarrow> int" where
  "js_Number s =
     (case s of
        [] \<Rightarrow> 0
      | c # cs \<Rightarrow>
          if c = CHR ''-'' \<and> cs \<noteq> [] \<and> list_all is_digit cs then - int (decimal_value cs)
          else if list_all is_digit s then int (decimal_value s)
          else 0)"

subsection \<open>\<open>toISOString\<close> and \<open>new Date(text)\<close>\<close>

text \<open>
  The in-memory repository keeps its timestamps as text. A date text is represented by
  the instant it denotes: \<open>toISOString\<close> prints a time value with millisecond precision
  and \<open>new Date(text)\<close> reads it back, so the two are inverse to each other on the texts
  that occur.
\<close>

datatype date_text = DateText timestamp

definition toISOString :: "timestamp \<Rightarrow> date_text" where
  "toISOString t = DateText t"

fun new_Date :: "date_text \<Rightarrow> timestamp" where
  "new_Date (DateText t) = t"

section \<open>The in-memory repository (repositories/in-memory.repo.ts)\<close>

record MemoryPost =
  id :: string
  post_title :: string
  post_body :: string
  post_description :: string
  post_created :: date_text
  post_updated :: date_text
  username :: string

text \<open>The date-only text \<open>"2021-01-01"\<close> denotes midnight UTC of that day.\<close>

definition date_2021_01_01 :: timestamp where
  "date_2021_01_01 = 1609459200000"

text \<open>The initial value of the field \<open>posts\<close>.\<close>

definition mem_posts :: "MemoryPost list" where
  "mem_posts =
     [\<lparr> MemoryPost.id = ''1'',
        post_title = ''First Post'',
        post_body = ''This is the first post'',
        post_description = ''This is the first post'',
        post_created = DateText date_2021_01_01,
        post_updated = DateText date_2021_01_01,
        username = ''johndoe'' \<rparr>,
      \<lparr> MemoryPost.id = ''2'',
        post_title = ''Second Post'',
        post_body = ''This is the second post'',
        post_description = ''This is the second post'',
        post_created = DateText date_2021_01_01,
        post_updated = DateText date_2021_01_01,
        username = ''janedoe'' \<rparr>]"

definition inMemoryPostToPostModel :: "MemoryPost \<Rightarrow> PostModel" where
  "inMemoryPostToPostModel post =
     \<lparr> PostModel.id = js_Number (MemoryPost.id post),
       PostModel.title = post_title post,
       PostModel.description = post_description post,
       PostModel.body = post_body post,
       PostModel.createdBy = username post,
       PostModel.created = new_Date (post_created post),
       PostModel.updated = new_Date (post_updated post) \<rparr>"

text \<open>
  Each operation takes the list \<open>posts\<close> and returns the state of its promise together
  with the list afterwards. The clock readings of the calls of \<open>new Date()\<close> are
  arguments, one for each call, in the order of the calls.
\<close>

definition mem_getAllPosts :: "MemoryPost list \<Rightarrow> PostModel list promise \<times> MemoryPost list" where
  "mem_getAllPosts posts = (Resolved (map inMemoryPostToPostModel posts), posts)"

definition mem_getPostById ::
  "int \<Rightarrow> MemoryPost list \<Rightarrow> PostModel option promise \<times> MemoryPost list" where
  "mem_getPostById i posts =
     (case find (\<lambda>post. MemoryPost.id post = js_String (JNum i)) posts of
        Some post \<Rightarrow> (Resolved (Some (inMemoryPostToPostModel post)), posts)
      | None \<Rightarrow> (Resolved None, posts))"

definition mem_createPost ::
  "timestamp \<Rightarrow> timestamp \<Rightarrow> CreatePostModel \<Rightarrow> MemoryPost list
     \<Rightarrow> PostModel promise \<times> MemoryPost list" where
  "mem_createPost t1 t2 post posts =
     (let newPost =
        \<lparr> MemoryPost.id = js_String (JNum (int (length posts) + 1)),
          post_title = CreatePostModel.title post,
          post_body = CreatePostModel.body post,
          post_description = CreatePostModel.description post,
          post_created = toISOString t1,
          post_updated = toISOString t2,
          username = CreatePostModel.createdBy post \<rparr>
      in (Resolved (inMemoryPostToPostModel newPost), posts @ [newPost]))"

text \<open>
  In \<open>updatePost\<close> the parameter of the predicate given to \<open>findIndex\<close> is named
  \<open>post\<close> like the argument of the method, so inside the predicate \<open>post\<close> is the stored
  record and \<open>String(post.id)\<close> is applied to the record's own id, a string. When no
  index is found the executor returns without calling \<open>resolve\<close>.
\<close>

definition mem_updatePost ::
  "timestamp \<Rightarrow> UpdatePostModel \<Rightarrow> MemoryPost list \<Rightarrow> PostModel promise \<times> MemoryPost list" where
  "mem_updatePost t post posts =
     (case findIndex (\<lambda>post'. MemoryPost.id post' = js_String (JStr (MemoryPost.id post'))) posts of
        Some index \<Rightarrow>
          (let posts' = posts[index := (posts ! index)
                 \<lparr> post_title := UpdatePostModel.title post,
                   post_body := UpdatePostModel.body post,
                   post_description := UpdatePostModel.description post,
                   post_updated := toISOString t \<rparr>]
           in (Resolved (inMemoryPostToPostModel (posts' ! index)), posts'))
      | None \<Rightarrow> (Pending, posts))"

definition mem_deletePost :: "int \<Rightarrow> MemoryPost list \<Rightarrow> int promise \<times> MemoryPost list" where
  "mem_deletePost i posts =
     (case findIndex (\<lambda>post. MemoryPost.id post = js_String (JNum i)) posts of
        Some index \<Rightarrow> (Resolved i, splice1 index posts)
      | None \<Rightarrow> (Pending, posts))"

section \<open>The file repository (repositories/file.repo.ts)\<close>

record FilePost =
  id :: int
  title :: string
  desc :: string
  body :: string
  author :: string
  added :: timestamp
  updated :: timestamp

text \<open>
  The state is the field \<open>FilePosts\<close> (\<open>None\<close> while it is undefined) and the content of
  the file \<open>db.json\<close>, a JSON array that is represented by the list of records it
  denotes: \<open>JSON.stringify\<close> and \<open>JSON.parse\<close> are the identity on it. In the file a
  \<open>Date\<close> is the ISO text of its time value; following the declared type of \<open>added\<close>
  and \<open>updated\<close>, the model takes both fields to be the instants these texts denote.
  The file is taken to be readable, well-formed and writable; a failing read or write is
  not modelled.
\<close>

record FileRepository =
  FilePosts :: "FilePost list option"
  db_json :: "FilePost list"

definition file_loadPosts :: "FileRepository \<Rightarrow> FileRepository" where
  "file_loadPosts r = (if FilePosts r = None then r\<lparr>FilePosts := Some (db_json r)\<rparr> else r)"

definition filePostToPostModel :: "FilePost \<Rightarrow> PostModel" where
  "filePostToPostModel filePost =
     \<lparr> PostModel.id = FilePost.id filePost,
       PostModel.title = FilePost.title filePost,
       PostModel.description = FilePost.desc filePost,
       PostModel.body = FilePost.body filePost,
       PostModel.createdBy = FilePost.author filePost,
       PostModel.created = FilePost.added filePost,
       PostModel.updated = FilePost.updated filePost \<rparr>"

text \<open>
  After \<open>loadPosts\<close> the field is defined; reading a property of \<open>undefined\<close> would
  throw a \<open>TypeError\<close>, which is the \<open>None\<close> branch of each operation.
\<close>

definition file_getAllPosts :: "FileRepository \<Rightarrow> PostModel list promise \<times> FileRepository" where
  "file_getAllPosts r =
     (let r1 = file_loadPosts r in
      case FilePosts r1 of
        None \<Rightarrow> (Rejected (Error ''TypeError''), r1)
      | Some posts \<Rightarrow> (Resolved (map filePostToPostModel posts), r1))"

definition file_getPostById ::
  "int \<Rightarrow> FileRepository \<Rightarrow> PostModel option promise \<times> FileRepository" where
  "file_getPostById i r =
     (let r1 = file_loadPosts r in
      case FilePosts r1 of
        None \<Rightarrow> (Rejected (Error ''TypeError''), r1)
      | Some posts \<Rightarrow>
          (case find (\<lambda>filePost. FilePost.id filePost = i) posts of
             Some post \<Rightarrow> (Resolved (Some (filePostToPostModel post)), r1)
           | None \<Rightarrow> (Resolved None, r1)))"

definition file_createPost ::
  "timestamp \<Rightarrow> timestamp \<Rightarrow> CreatePostModel \<Rightarrow> FileRepository
     \<Rightarrow> PostModel promise \<times> FileRepository" where
  "file_createPost t1 t2 post r =
     (let r1 = file_loadPosts r in
      case FilePosts r1 of
        None \<Rightarrow> (Rejected (Error ''TypeError''), r1)
      | Some posts \<Rightarrow>
          (let newPost =
             \<lparr> FilePost.id = int (length posts) + 1,
               FilePost.title = CreatePostModel.title post,
               FilePost.desc = CreatePostModel.description post,
               FilePost.body = CreatePostModel.body post,
               FilePost.author = CreatePostModel.createdBy post,
               FilePost.added = t1,
               FilePost.updated = t2 \<rparr>;
               posts' = posts @ [newPost]
           in (Resolved (filePostToPostModel newPost),
               r1\<lparr>FilePosts := Some posts', db_json := posts'\<rparr>)))"

definition file_updatePost ::
  "timestamp \<Rightarrow> UpdatePostModel \<Rightarrow> FileRepository \<Rightarrow> PostModel promise \<times> FileRepository" where
  "file_updatePost t post r =
     (let r1 = file_loadPosts r in
      case FilePosts r1 of
        None \<Rightarrow> (Rejected (Error ''TypeError''), r1)
      | Some posts \<Rightarrow>
          (case findIndex (\<lambda>filePost. FilePost.id filePost = UpdatePostModel.id post) posts of
             Some index \<Rightarrow>
               (let updatedPost = (posts ! index)
                      \<lparr> FilePost.title := UpdatePostModel.title post,
                        FilePost.desc := UpdatePostModel.description post,
                        FilePost.body := UpdatePostModel.body post,
                        FilePost.updated := t \<rparr>;
                    posts' = posts[index := updatedPost]
                in (Resolved (filePostToPostModel updatedPost),
                    r1\<lparr>FilePosts := Some posts', db_json := posts'\<rparr>))
           | None \<Rightarrow> (Rejected (Error ''Post not found''), r1)))"

definition file_deletePost :: "int \<Rightarrow> FileRepository \<Rightarrow> int promise \<times> FileRepository" where
  "file_deletePost i r =
     (let r1 = file_loadPosts r in
      case FilePosts r1 of
        None \<Rightarrow> (Rejected (Error ''TypeError''), r1)
      | Some posts \<Rightarrow>
          (case findIndex (\<lambda>filePost. FilePost.id filePost = i) posts of
             Some index \<Rightarrow>
               (let deletedPost = posts ! index;
                    posts' = splice1 index posts
                in (Resolved (FilePost.id deletedPost),
                    r1\<lparr>FilePosts := Some posts', db_json := posts'\<rparr>))
           | None \<Rightarrow> (Rejected (Error ''Post not found''), r1)))"

text \<open>A fresh instance over a file with the given content.\<close>

definition file_new :: "FilePost list \<Rightarrow> FileRepository" where
  "file_new content = \<lparr> FilePosts = None, db_json = content \<rparr>"

text \<open>
  The collection an instance holds: the loaded list, or the content of the file while
  nothing has been loaded.
\<close>

definition file_stored :: "FileRepository \<Rightarrow> FilePost list" where
  "file_stored r = (case FilePosts r of Some posts \<Rightarrow> posts | None \<Rightarrow> db_json r)"

section \<open>Sequences of operations\<close>

text \<open>
  A call of one of the five operations, with the clock readings of its calls of
  \<open>new Date()\<close>.
\<close>

datatype op =
    GetAllPosts
  | GetPostById int
  | CreatePost timestamp timestamp CreatePostModel
  | UpdatePost timestamp UpdatePostModel
  | DeletePost int

fun mem_step :: "MemoryPost list \<Rightarrow> op \<Rightarrow> MemoryPost list" where
  "mem_step posts GetAllPosts = snd (mem_getAllPosts posts)"
| "mem_step posts (GetPostById i) = snd (mem_getPostById i posts)"
| "mem_step posts (CreatePost t1 t2 post) = snd (mem_createPost t1 t2 post posts)"
| "mem_step posts (UpdatePost t post) = snd (mem_updatePost t post posts)"
| "mem_step posts (DeletePost i) = snd (mem_deletePost i posts)"

definition mem_run :: "op list \<Rightarrow> MemoryPost list" where
  "mem_run ops = foldl mem_step mem_posts ops"

fun file_step :: "FileRepository \<Rightarrow> op \<Rightarrow> FileRepository" where
  "file_step r GetAllPosts = snd (file_getAllPosts r)"
| "file_step r (GetPostById i) = snd (file_getPostById i r)"
| "file_step r (CreatePost t1 t2 post) = snd (file_createPost t1 t2 post r)"
| "file_step r (UpdatePost t post) = snd (file_updatePost t post r)"
| "file_step r (DeletePost i) = snd (file_deletePost i r)"

definition file_run :: "FilePost list \<Rightarrow> op list \<Rightarrow> FileRepository" where
  "file_run content ops = foldl file_step (file_new content) ops"

text \<open>The clock readings an operation takes, in the order in which it takes them.\<close>

fun readings :: "op \<Rightarrow> timestamp list" where
  "readings (CreatePost t1 t2 post) = [t1, t2]"
| "readings (UpdatePost t post) = [t]"
| "readings _ = []"

fun is_delete :: "op \<Rightarrow> bool" where
  "is_delete (DeletePost i) = True"
| "is_delete _ = False"

section \<open>Properties of the stored collection\<close>

text \<open>Every stored id of the in-memory repository is the decimal numeral of its number.\<close>

definition canonical :: "MemoryPost list \<Rightarrow> bool" where
  "canonical posts =
     (\<forall>p\<in>set posts. js_String (JNum (js_Number (MemoryPost.id p))) = MemoryPost.id p)"

text \<open>No stored id exceeds the number of stored records.\<close>

definition mem_bounded :: "MemoryPost list \<Rightarrow> bool" where
  "mem_bounded posts = (\<forall>s\<in>set (map MemoryPost.id posts). js_Number s \<le> int (length (map MemoryPost.id posts)))"

definition file_bounded :: "FilePost list \<Rightarrow> bool" where
  "file_bounded posts = (\<forall>filePost\<in>set posts. FilePost.id filePost \<le> int (length posts))"

text \<open>
  No record was updated before it was created, and none carries a time later than the
  latest clock reading \<open>now\<close>.
\<close>

definition mem_timely :: "timestamp \<Rightarrow> MemoryPost list \<Rightarrow> bool" where
  "mem_timely now posts =
     (\<forall>p\<in>set posts. new_Date (post_created p) \<le> new_Date (post_updated p)
        \<and> new_Date (post_updated p) \<le> now)"

definition file_timely :: "timestamp \<Rightarrow> FilePost list \<Rightarrow> bool" where
  "file_timely now posts =
     (\<forall>filePost\<in>set posts. FilePost.added filePost \<le> FilePost.updated filePost
        \<and> FilePost.updated filePost \<le> now)"

section \<open>Example data\<close>

text \<open>The payload of the concrete scenario, and the post \<open>createPost\<close> makes of it.\<close>

definition sample_post :: CreatePostModel where
  "sample_post =
     \<lparr> CreatePostModel.title = ''T'', description = ''D'', body = ''B'', createdBy = ''alice'' \<rparr>"

definition sample_result :: "int \<Rightarrow> timestamp \<Rightarrow> timestamp \<Rightarrow> PostModel" where
  "sample_result i t1 t2 =
     \<lparr> PostModel.id = i, title = ''T'', description = ''D'', body = ''B'',
       createdBy = ''alice'', created = t1, updated = t2 \<rparr>"

text \<open>The second post of the in-memory seed, as \<open>getAllPosts\<close> returns it.\<close>

definition second_post :: PostModel where
  "second_post =
     \<lparr> PostModel.id = 2, title = ''Second Post'', description = ''This is the second post'',
       body = ''This is the second post'', createdBy = ''janedoe'',
       created = date_2021_01_01, updated = date_2021_01_01 \<rparr>"

definition sample_update :: "int \<Rightarrow> UpdatePostModel" where
  "sample_update i =
     \<lparr> UpdatePostModel.id = i, title = ''T2'', description = ''D2'', body = ''B2'' \<rparr>"

definition sample_filePost :: FilePost where
  "sample_filePost =
     \<lparr> FilePost.id = 1, title = ''a'', desc = ''b'', body = ''c'', author = ''d'',
       added = 1600000000000, updated = 1600000000005 \<rparr>"

text \<open>
  Two states in which an id has been given out twice: the post with id 1 is deleted and
  a post is created, which gets the id 2 that another stored post already has.
\<close>

definition mem_reused :: "MemoryPost list" where
  "mem_reused = mem_run [DeletePost 1, CreatePost 5 5 sample_post]"

definition file_reused :: FileRepository where
  "file_reused =
     file_run [] [CreatePost 1 1 sample_post, CreatePost 2 2 sample_post, DeletePost 1,
       CreatePost 5 5 sample_post]"

section \<open>Facts about the library functions\<close>

lemma findIndex_Some_iff:
  "findIndex P xs = Some i \<longleftrightarrow> i < length xs \<and> P (xs ! i) \<and> (\<forall>j<i. \<not> P (xs ! j))"
proof (induction xs arbitrary: i)
  case Nil
  then show ?case by simp
next
  case (Cons x xs)
  show ?case
  proof (cases "P x")
    case True
    then show ?thesis by (cases i) auto
  next
    case False
    then show ?thesis
      by (cases i) (auto simp: Cons.IH less_Suc_eq_0_disj nth_Cons')
  qed
qed

lemma findIndex_None_iff: "findIndex P xs = None \<longleftrightarrow> (\<forall>x\<in>set xs. \<not> P x)"
  by (induction xs) auto

lemma findIndex_member: "x \<in> set xs \<Longrightarrow> P x \<Longrightarrow> \<exists>k. findIndex P xs = Some k"
  by (cases "findIndex P xs") (auto simp: findIndex_None_iff)

lemma find_snoc_new: "\<forall>x\<in>set xs. \<not> P x \<Longrightarrow> P y \<Longrightarrow> find P (xs @ [y]) = Some y"
  by (induction xs) auto

lemma set_splice1: "set (splice1 k xs) \<subseteq> set xs"
  by (auto simp: splice1_def dest: in_set_takeD in_set_dropD)

lemma filter_single_splice1:
  assumes "findIndex P xs = Some k" and "length (filter P xs) = 1"
  shows "\<forall>x\<in>set (splice1 k xs). \<not> P x"
proof -
  from assms(1) have k: "k < length xs" and Pk: "P (xs ! k)"
    by (simp_all add: findIndex_Some_iff)
  have "xs = take k xs @ xs ! k # drop (Suc k) xs"
    using k by (rule id_take_nth_drop)
  then have "filter P xs = filter P (take k xs) @ xs ! k # filter P (drop (Suc k) xs)"
    using Pk by (metis filter.simps(2) filter_append)
  with assms(2) have "filter P (take k xs) = []" and "filter P (drop (Suc k) xs) = []"
    by simp_all
  then show ?thesis
    by (auto simp: splice1_def filter_empty_conv)
qed

lemma digit_value_digit: "d < 10 \<Longrightarrow> digit_value (digit d) = d"
  unfolding digit_value_def digit_def
  by (auto simp: less_Suc_eq numeral_eq_Suc nth_Cons')

lemma is_digit_digit: "d < 10 \<Longrightarrow> is_digit (digit d)"
  unfolding is_digit_def digit_def
  by (auto simp: less_Suc_eq numeral_eq_Suc nth_Cons')

lemma digit_not_minus: "d < 10 \<Longrightarrow> digit d \<noteq> CHR ''-''"
  unfolding digit_def
  by (auto simp: less_Suc_eq numeral_eq_Suc nth_Cons')

lemma digits_not_Nil: "digits n \<noteq> []"
  by (subst digits.simps) simp

lemma all_digits: "list_all is_digit (digits n)"
  by (induction n rule: digits.induct) (subst digits.simps, simp add: is_digit_digit)

lemma hd_digits_not_minus: "hd (digits n) \<noteq> CHR ''-''"
  by (induction n rule: digits.induct)
     (subst digits.simps, simp add: digit_not_minus digits_not_Nil)

lemma decimal_value_digits: "decimal_value (digits n) = n"
  by (induction n rule: digits.induct)
     (subst digits.simps, simp add: decimal_value_def digit_value_digit)

lemma js_Number_js_String: "js_Number (js_String (JNum i)) = i"
proof (cases "i < 0")
  case True
  then show ?thesis
    by (simp add: js_Number_def all_digits digits_not_Nil decimal_value_digits)
next
  case False
  obtain c cs where d: "digits (nat i) = c # cs"
    using digits_not_Nil [of "nat i"] by (cases "digits (nat i)") auto
  have "c \<noteq> CHR ''-''"
    using hd_digits_not_minus [of "nat i"] d by simp
  moreover have "list_all is_digit (c # cs)" "decimal_value (c # cs) = nat i"
    using all_digits [of "nat i"] decimal_value_digits [of "nat i"] d by simp_all
  ultimately show ?thesis
    using False d by (simp add: js_Number_def)
qed

lemma sorted_readings_split:
  assumes "sorted (now # rs @ rest)"
  shows "sorted (now # rs)" and "sorted (last (now # rs) # rest)"
    and "last (now # rs @ rest) = last (last (now # rs) # rest)"
proof -
  from assms have s: "sorted ((now # rs) @ rest)" by simp
  then show "sorted (now # rs)"
    unfolding sorted_append by blast
  have "last (now # rs) \<in> set (now # rs)"
    by (rule last_in_set) simp
  with s show "sorted (last (now # rs) # rest)"
    unfolding sorted_append by auto
  show "last (now # rs @ rest) = last (last (now # rs) # rest)"
    by (cases rest) simp_all
qed

section \<open>What each operation computes\<close>

lemmas eval_defs = mem_posts_def digits.simps digit_def js_Number_def is_digit_def
  decimal_value_def digit_value_def inMemoryPostToPostModel_def toISOString_def

subsection \<open>In-memory repository\<close>

lemma id_inMemoryPostToPostModel [simp]:
  "PostModel.id (inMemoryPostToPostModel post) = js_Number (MemoryPost.id post)"
  by (simp add: inMemoryPostToPostModel_def)

lemma mem_getPostById_eq:
  "mem_getPostById i posts =
     (Resolved (map_option inMemoryPostToPostModel
        (find (\<lambda>post. MemoryPost.id post = js_String (JNum i)) posts)), posts)"
  by (simp add: mem_getPostById_def split: option.splits)

lemma mem_createPost_eq:
  "mem_createPost t1 t2 post posts =
     (Resolved
        \<lparr> PostModel.id = int (length posts) + 1,
          PostModel.title = CreatePostModel.title post,
          PostModel.description = CreatePostModel.description post,
          PostModel.body = CreatePostModel.body post,
          PostModel.createdBy = CreatePostModel.createdBy post,
          PostModel.created = t1,
          PostModel.updated = t2 \<rparr>,
      posts @
        [\<lparr> MemoryPost.id = js_String (JNum (int (length posts) + 1)),
           post_title = CreatePostModel.title post,
           post_body = CreatePostModel.body post,
           post_description = CreatePostModel.description post,
           post_created = toISOString t1,
           post_updated = toISOString t2,
           username = CreatePostModel.createdBy post \<rparr>])"
  unfolding mem_createPost_def Let_def inMemoryPostToPostModel_def
  by (simp add: js_Number_js_String toISOString_def del: js_String.simps)

lemma mem_updatePost_Nil: "mem_updatePost t u [] = (Pending, [])"
  by (simp add: mem_updatePost_def)

lemma snd_mem_updatePost_Cons:
  "snd (mem_updatePost t u (p # rest)) =
     p \<lparr> post_title := UpdatePostModel.title u,
         post_body := UpdatePostModel.body u,
         post_description := UpdatePostModel.description u,
         post_updated := toISOString t \<rparr> # rest"
  by (simp add: mem_updatePost_def)

lemma mem_updatePost_ids:
  "map MemoryPost.id (snd (mem_updatePost t u posts)) = map MemoryPost.id posts"
  by (cases posts) (simp_all add: mem_updatePost_Nil snd_mem_updatePost_Cons)

lemma mem_deletePost_cases:
  "snd (mem_deletePost i posts) = posts \<or> (\<exists>k. snd (mem_deletePost i posts) = splice1 k posts)"
  by (auto simp: mem_deletePost_def split: option.splits)

lemma mem_deletePost_subset: "set (snd (mem_deletePost i posts)) \<subseteq> set posts"
  by (auto simp: mem_deletePost_def splice1_def split: option.splits
      dest: in_set_takeD in_set_dropD)

lemma mem_deletePost_notFound:
  assumes "\<forall>post\<in>set posts. MemoryPost.id post \<noteq> js_String (JNum i)"
  shows "mem_deletePost i posts = (Pending, posts)"
proof -
  have "findIndex (\<lambda>post. MemoryPost.id post = js_String (JNum i)) posts = None"
    using assms by (simp add: findIndex_None_iff del: js_String.simps)
  then show ?thesis by (simp add: mem_deletePost_def del: js_String.simps)
qed

subsection \<open>File repository\<close>

lemma id_filePostToPostModel [simp]:
  "PostModel.id (filePostToPostModel filePost) = FilePost.id filePost"
  by (simp add: filePostToPostModel_def)

lemma FilePosts_loadPosts [simp]: "FilePosts (file_loadPosts r) = Some (file_stored r)"
  by (cases "FilePosts r") (simp_all add: file_loadPosts_def file_stored_def)

lemma db_json_loadPosts [simp]: "db_json (file_loadPosts r) = db_json r"
  by (simp add: file_loadPosts_def)

lemma file_stored_loadPosts [simp]: "file_stored (file_loadPosts r) = file_stored r"
  by (simp add: file_stored_def)

lemma file_loadPosts_idem [simp]: "file_loadPosts (file_loadPosts r) = file_loadPosts r"
  by (simp add: file_loadPosts_def)

lemma file_stored_new [simp]: "file_stored (file_new content) = content"
  by (simp add: file_stored_def file_new_def)

lemma file_stored_update [simp]:
  "file_stored (r\<lparr>FilePosts := Some posts, db_json := content\<rparr>) = posts"
  by (simp add: file_stored_def)

lemma file_getAllPosts_eq:
  "file_getAllPosts r = (Resolved (map filePostToPostModel (file_stored r)), file_loadPosts r)"
  by (simp add: file_getAllPosts_def)

lemma file_getPostById_eq:
  "file_getPostById i r =
     (Resolved (map_option filePostToPostModel (find (\<lambda>filePost. FilePost.id filePost = i) (file_stored r))),
      file_loadPosts r)"
  by (simp add: file_getPostById_def Let_def split: option.splits)

lemma file_createPost_eq:
  "file_createPost t1 t2 post r =
     (Resolved
        \<lparr> PostModel.id = int (length (file_stored r)) + 1,
          PostModel.title = CreatePostModel.title post,
          PostModel.description = CreatePostModel.description post,
          PostModel.body = CreatePostModel.body post,
          PostModel.createdBy = CreatePostModel.createdBy post,
          PostModel.created = t1,
          PostModel.updated = t2 \<rparr>,
      (file_loadPosts r)
        \<lparr> FilePosts := Some (file_stored r @
             [\<lparr> FilePost.id = int (length (file_stored r)) + 1,
                FilePost.title = CreatePostModel.title post,
                FilePost.desc = CreatePostModel.description post,
                FilePost.body = CreatePostModel.body post,
                FilePost.author = CreatePostModel.createdBy post,
                FilePost.added = t1,
                FilePost.updated = t2 \<rparr>]),
          db_json := file_stored r @
             [\<lparr> FilePost.id = int (length (file_stored r)) + 1,
                FilePost.title = CreatePostModel.title post,
                FilePost.desc = CreatePostModel.description post,
                FilePost.body = CreatePostModel.body post,
                FilePost.author = CreatePostModel.createdBy post,
                FilePost.added = t1,
                FilePost.updated = t2 \<rparr>] \<rparr>)"
  by (simp add: file_createPost_def filePostToPostModel_def Let_def)

lemma file_updatePost_found:
  assumes "findIndex (\<lambda>filePost. FilePost.id filePost = UpdatePostModel.id post) (file_stored r) = Some index"
  shows "file_updatePost t post r =
     (Resolved
        \<lparr> PostModel.id = UpdatePostModel.id post,
          PostModel.title = UpdatePostModel.title post,
          PostModel.description = UpdatePostModel.description post,
          PostModel.body = UpdatePostModel.body post,
          PostModel.createdBy = FilePost.author (file_stored r ! index),
          PostModel.created = FilePost.added (file_stored r ! index),
          PostModel.updated = t \<rparr>,
      (file_loadPosts r)
        \<lparr> FilePosts := Some ((file_stored r)[index := (file_stored r ! index)
               \<lparr> FilePost.title := UpdatePostModel.title post,
                 FilePost.desc := UpdatePostModel.description post,
                 FilePost.body := UpdatePostModel.body post,
                 FilePost.updated := t \<rparr>]),
          db_json := (file_stored r)[index := (file_stored r ! index)
               \<lparr> FilePost.title := UpdatePostModel.title post,
                 FilePost.desc := UpdatePostModel.description post,
                 FilePost.body := UpdatePostModel.body post,
                 FilePost.updated := t \<rparr>] \<rparr>)"
proof -
  have "FilePost.id (file_stored r ! index) = UpdatePostModel.id post"
    using assms by (simp add: findIndex_Some_iff)
  then show ?thesis
    using assms by (simp add: file_updatePost_def filePostToPostModel_def Let_def)
qed

lemma file_updatePost_notFound:
  assumes "\<forall>filePost\<in>set (file_stored r). FilePost.id filePost \<noteq> UpdatePostModel.id post"
  shows "file_updatePost t post r = (Rejected (Error ''Post not found''), file_loadPosts r)"
proof -
  have "findIndex (\<lambda>filePost. FilePost.id filePost = UpdatePostModel.id post) (file_stored r) = None"
    using assms by (simp add: findIndex_None_iff)
  then show ?thesis by (simp add: file_updatePost_def)
qed

lemma file_updatePost_stored:
  "file_stored (snd (file_updatePost t u r)) = file_stored r \<or>
   (\<exists>k. k < length (file_stored r) \<and> file_stored (snd (file_updatePost t u r)) =
      (file_stored r)[k := (file_stored r ! k)
               \<lparr> FilePost.title := UpdatePostModel.title u,
                 FilePost.desc := UpdatePostModel.description u,
                 FilePost.body := UpdatePostModel.body u,
                 FilePost.updated := t \<rparr>])"
proof (cases "findIndex (\<lambda>filePost. FilePost.id filePost = UpdatePostModel.id u) (file_stored r)")
  case None
  then show ?thesis by (simp add: file_updatePost_def)
next
  case (Some k)
  then show ?thesis
    by (auto simp: file_updatePost_found findIndex_Some_iff)
qed

lemma file_updatePost_ids:
  "map FilePost.id (file_stored (snd (file_updatePost t u r))) = map FilePost.id (file_stored r)"
  using file_updatePost_stored [of t u r]
  by (auto simp: map_update list_update_same_conv)

lemma file_deletePost_found:
  assumes "findIndex (\<lambda>filePost. FilePost.id filePost = i) (file_stored r) = Some index"
  shows "file_deletePost i r =
     (Resolved i,
      (file_loadPosts r) \<lparr> FilePosts := Some (splice1 index (file_stored r)),
                            db_json := splice1 index (file_stored r) \<rparr>)"
proof -
  have "FilePost.id (file_stored r ! index) = i"
    using assms by (simp add: findIndex_Some_iff)
  then show ?thesis
    using assms by (simp add: file_deletePost_def Let_def)
qed

lemma file_deletePost_notFound:
  assumes "\<forall>filePost\<in>set (file_stored r). FilePost.id filePost \<noteq> i"
  shows "file_deletePost i r = (Rejected (Error ''Post not found''), file_loadPosts r)"
proof -
  have "findIndex (\<lambda>filePost. FilePost.id filePost = i) (file_stored r) = None"
    using assms by (simp add: findIndex_None_iff)
  then show ?thesis by (simp add: file_deletePost_def)
qed

lemma file_deletePost_state:
  "file_stored (snd (file_deletePost i r)) = file_stored r
   \<or> (\<exists>k. file_stored (snd (file_deletePost i r)) = splice1 k (file_stored r))"
proof (cases "findIndex (\<lambda>filePost. FilePost.id filePost = i) (file_stored r)")
  case None
  then show ?thesis by (simp add: file_deletePost_def)
next
  case (Some k)
  then show ?thesis by (auto simp: file_deletePost_found)
qed

lemma file_deletePost_subset: "set (file_stored (snd (file_deletePost i r))) \<subseteq> set (file_stored r)"
proof (cases "findIndex (\<lambda>filePost. FilePost.id filePost = i) (file_stored r)")
  case None
  then show ?thesis by (simp add: file_deletePost_def)
next
  case (Some k)
  then show ?thesis
    using set_splice1 [of k "file_stored r"] by (simp add: file_deletePost_found)
qed

section \<open>Invariants of the sequences of operations\<close>

subsection \<open>Stored ids are decimal numerals\<close>

lemma canonical_ids: "canonical posts \<longleftrightarrow> (\<forall>s\<in>set (map MemoryPost.id posts). js_String (JNum (js_Number s)) = s)"
  by (simp add: canonical_def del: js_String.simps)

lemma canonical_step: "canonical posts \<Longrightarrow> canonical (mem_step posts op)"
proof (cases op)
  case (CreatePost t1 t2 post)
  assume "canonical posts"
  then show ?thesis
    using CreatePost
    by (simp add: canonical_def mem_createPost_eq js_Number_js_String del: js_String.simps)
next
  case (UpdatePost t post)
  assume "canonical posts"
  then show ?thesis
    using UpdatePost by (simp only: canonical_ids mem_step.simps mem_updatePost_ids)
next
  case (DeletePost i)
  assume c: "canonical posts"
  have "set (mem_step posts op) \<subseteq> set posts"
    using DeletePost mem_deletePost_subset [of i posts] by simp
  with c show ?thesis
    unfolding canonical_def by blast
qed (simp_all add: mem_getAllPosts_def mem_getPostById_eq)

lemma canonical_foldl: "canonical posts \<Longrightarrow> canonical (foldl mem_step posts ops)"
  by (induction ops arbitrary: posts) (simp_all add: canonical_step)

lemma canonical_mem_posts: "canonical mem_posts"
  by (simp add: canonical_def eval_defs)

lemma mem_run_canonical: "canonical (mem_run ops)"
  unfolding mem_run_def by (rule canonical_foldl [OF canonical_mem_posts])

subsection \<open>Without deletions no id exceeds the number of records\<close>

lemma mem_bounded_step: "mem_bounded posts \<Longrightarrow> \<not> is_delete op \<Longrightarrow> mem_bounded (mem_step posts op)"
proof (cases op)
  case (CreatePost t1 t2 post)
  assume "mem_bounded posts"
  then show ?thesis
    using CreatePost
    by (fastforce simp: mem_bounded_def mem_createPost_eq js_Number_js_String simp del: js_String.simps)
next
  case (UpdatePost t post)
  assume "mem_bounded posts"
  then show ?thesis
    using UpdatePost by (simp only: mem_bounded_def mem_step.simps mem_updatePost_ids)
qed (simp_all add: mem_getAllPosts_def mem_getPostById_eq)

lemma mem_bounded_foldl:
  "mem_bounded posts \<Longrightarrow> \<forall>op\<in>set ops. \<not> is_delete op \<Longrightarrow> mem_bounded (foldl mem_step posts ops)"
  by (induction ops arbitrary: posts) (simp_all add: mem_bounded_step)

lemma mem_bounded_mem_posts: "mem_bounded mem_posts"
  by (simp add: mem_bounded_def eval_defs)

lemma mem_run_bounded: "\<forall>op\<in>set ops. \<not> is_delete op \<Longrightarrow> mem_bounded (mem_run ops)"
  unfolding mem_run_def by (rule mem_bounded_foldl [OF mem_bounded_mem_posts])

lemma file_bounded_step:
  "file_bounded (file_stored r) \<Longrightarrow> \<not> is_delete op \<Longrightarrow> file_bounded (file_stored (file_step r op))"
proof (cases op)
  case (CreatePost t1 t2 post)
  assume "file_bounded (file_stored r)"
  then show ?thesis
    using CreatePost by (fastforce simp: file_bounded_def file_createPost_eq)
next
  case (UpdatePost t post)
  assume "file_bounded (file_stored r)"
  then have "\<forall>i\<in>set (map FilePost.id (file_stored r)). i \<le> int (length (map FilePost.id (file_stored r)))"
    by (simp add: file_bounded_def)
  then have "\<forall>i\<in>set (map FilePost.id (file_stored (snd (file_updatePost t post r)))).
      i \<le> int (length (map FilePost.id (file_stored (snd (file_updatePost t post r)))))"
    by (simp only: file_updatePost_ids)
  then show ?thesis
    using UpdatePost by (simp add: file_bounded_def)
qed (simp_all add: file_getAllPosts_eq file_getPostById_eq)

lemma file_bounded_foldl:
  "file_bounded (file_stored r) \<Longrightarrow> \<forall>op\<in>set ops. \<not> is_delete op
     \<Longrightarrow> file_bounded (file_stored (foldl file_step r ops))"
  by (induction ops arbitrary: r) (simp_all add: file_bounded_step)

subsection \<open>Timestamps under a clock that does not run backwards\<close>

lemma mem_timely_mono: "mem_timely now posts \<Longrightarrow> now \<le> now' \<Longrightarrow> mem_timely now' posts"
  by (fastforce simp: mem_timely_def)

lemma file_timely_mono: "file_timely now posts \<Longrightarrow> now \<le> now' \<Longrightarrow> file_timely now' posts"
  by (fastforce simp: file_timely_def)

lemma mem_timely_step:
  assumes "mem_timely now posts" and "sorted (now # readings op)"
  shows "mem_timely (last (now # readings op)) (mem_step posts op)"
proof (cases op)
  case GetAllPosts
  with assms show ?thesis by (simp add: mem_getAllPosts_def)
next
  case (GetPostById i)
  with assms show ?thesis by (simp add: mem_getPostById_eq)
next
  case (CreatePost t1 t2 post)
  with assms(2) have "now \<le> t2" "t1 \<le> t2" by simp_all
  with assms(1) show ?thesis
    using CreatePost
    by (fastforce simp: mem_timely_def mem_createPost_eq toISOString_def simp del: js_String.simps)
next
  case (UpdatePost t post)
  with assms(2) have t: "now \<le> t" by simp
  show ?thesis
  proof (cases posts)
    case Nil
    then show ?thesis using UpdatePost by (simp add: mem_updatePost_Nil mem_timely_def)
  next
    case (Cons p rest)
    with assms(1) t show ?thesis
      using UpdatePost
      by (fastforce simp: mem_timely_def snd_mem_updatePost_Cons toISOString_def)
  qed
next
  case (DeletePost i)
  have "set (mem_step posts op) \<subseteq> set posts"
    using DeletePost mem_deletePost_subset [of i posts] by simp
  with assms(1) show ?thesis
    using DeletePost unfolding mem_timely_def by auto
qed

lemma file_timely_step:
  assumes "file_timely now (file_stored r)" and "sorted (now # readings op)"
  shows "file_timely (last (now # readings op)) (file_stored (file_step r op))"
proof (cases op)
  case GetAllPosts
  with assms show ?thesis by (simp add: file_getAllPosts_eq)
next
  case (GetPostById i)
  with assms show ?thesis by (simp add: file_getPostById_eq)
next
  case (CreatePost t1 t2 post)
  with assms(2) have "now \<le> t2" "t1 \<le> t2" by simp_all
  with assms(1) show ?thesis
    using CreatePost by (fastforce simp: file_timely_def file_createPost_eq)
next
  case (UpdatePost t post)
  with assms(2) have t: "now \<le> t" by simp
  from file_updatePost_stored [of t post r] show ?thesis
  proof (elim disjE exE conjE)
    assume "file_stored (snd (file_updatePost t post r)) = file_stored r"
    with assms(1) t show ?thesis
      using UpdatePost by (simp add: file_timely_mono)
  next
    fix k
    let ?new = "(file_stored r ! k)
               \<lparr> FilePost.title := UpdatePostModel.title post,
                 FilePost.desc := UpdatePostModel.description post,
                 FilePost.body := UpdatePostModel.body post,
                 FilePost.updated := t \<rparr>"
    assume k: "k < length (file_stored r)"
      and eq: "file_stored (snd (file_updatePost t post r)) = (file_stored r)[k := ?new]"
    from k have old: "file_stored r ! k \<in> set (file_stored r)" by simp
    have new: "FilePost.added ?new \<le> FilePost.updated ?new \<and> FilePost.updated ?new \<le> t"
      using assms(1) old t unfolding file_timely_def by fastforce
    have "set ((file_stored r)[k := ?new]) \<subseteq> insert ?new (set (file_stored r))"
      by (rule set_update_subset_insert)
    with new file_timely_mono [OF assms(1) t] show ?thesis
      using UpdatePost eq unfolding file_timely_def by auto
  qed
next
  case (DeletePost i)
  with assms(1) file_deletePost_subset [of i r] show ?thesis
    unfolding file_timely_def by auto
qed

lemma mem_timely_foldl:
  "mem_timely now posts \<Longrightarrow> sorted (now # concat (map readings ops))
     \<Longrightarrow> mem_timely (last (now # concat (map readings ops))) (foldl mem_step posts ops)"
proof (induction ops arbitrary: now posts)
  case Nil
  then show ?case by simp
next
  case (Cons op ops)
  from Cons.prems(2) have s: "sorted (now # readings op @ concat (map readings ops))"
    by simp
  note sp = sorted_readings_split [OF s]
  have "mem_timely (last (now # readings op)) (mem_step posts op)"
    using Cons.prems(1) sp(1) by (rule mem_timely_step)
  from Cons.IH [OF this sp(2)] show ?case
    using sp(3) by simp
qed

lemma file_timely_foldl:
  "file_timely now (file_stored r) \<Longrightarrow> sorted (now # concat (map readings ops))
     \<Longrightarrow> file_timely (last (now # concat (map readings ops))) (file_stored (foldl file_step r ops))"
proof (induction ops arbitrary: now r)
  case Nil
  then show ?case by simp
next
  case (Cons op ops)
  from Cons.prems(2) have s: "sorted (now # readings op @ concat (map readings ops))"
    by simp
  note sp = sorted_readings_split [OF s]
  have "file_timely (last (now # readings op)) (file_stored (file_step r op))"
    using Cons.prems(1) sp(1) by (rule file_timely_step)
  from Cons.IH [OF this sp(2)] show ?case
    using sp(3) by simp
qed

lemma mem_timely_mem_posts: "mem_timely date_2021_01_01 mem_posts"
  by (simp add: mem_timely_def mem_posts_def)

subsection \<open>Deleting a stored post\<close>

lemma mem_delete_stored:
  assumes "canonical posts" and "post \<in> set posts"
  shows "fst (mem_deletePost (js_Number (MemoryPost.id post)) posts) =
           Resolved (js_Number (MemoryPost.id post))"
    and "length (filter (\<lambda>p. MemoryPost.id p = MemoryPost.id post) posts) = 1 \<Longrightarrow>
         fst (mem_getPostById (js_Number (MemoryPost.id post))
               (snd (mem_deletePost (js_Number (MemoryPost.id post)) posts))) = Resolved None"
proof -
  let ?P = "\<lambda>p. MemoryPost.id p = js_String (JNum (js_Number (MemoryPost.id post)))"
  have s: "js_String (JNum (js_Number (MemoryPost.id post))) = MemoryPost.id post"
    using assms by (simp add: canonical_def del: js_String.simps)
  then have "?P post" by (simp del: js_String.simps)
  then obtain k where k: "findIndex ?P posts = Some k"
    using findIndex_member [OF assms(2), of ?P] by blast
  then have del: "mem_deletePost (js_Number (MemoryPost.id post)) posts =
      (Resolved (js_Number (MemoryPost.id post)), splice1 k posts)"
    by (simp add: mem_deletePost_def del: js_String.simps)
  then show "fst (mem_deletePost (js_Number (MemoryPost.id post)) posts) =
           Resolved (js_Number (MemoryPost.id post))"
    by simp
  assume "length (filter (\<lambda>p. MemoryPost.id p = MemoryPost.id post) posts) = 1"
  then have "length (filter ?P posts) = 1"
    by (simp only: s)
  then have "\<forall>x\<in>set (splice1 k posts). \<not> ?P x"
    by (rule filter_single_splice1 [OF k])
  then have "find ?P (splice1 k posts) = None"
    by (simp only: find_None_iff) blast
  then show "fst (mem_getPostById (js_Number (MemoryPost.id post))
               (snd (mem_deletePost (js_Number (MemoryPost.id post)) posts))) = Resolved None"
    by (simp add: del mem_getPostById_eq del: js_String.simps)
qed

lemma file_delete_stored:
  assumes "filePost \<in> set (file_stored r)"
  shows "fst (file_deletePost (FilePost.id filePost) r) = Resolved (FilePost.id filePost)"
    and "length (filter (\<lambda>p. FilePost.id p = FilePost.id filePost) (file_stored r)) = 1 \<Longrightarrow>
         fst (file_getPostById (FilePost.id filePost)
               (snd (file_deletePost (FilePost.id filePost) r))) = Resolved None"
proof -
  let ?P = "\<lambda>p. FilePost.id p = FilePost.id filePost"
  obtain k where k: "findIndex ?P (file_stored r) = Some k"
    using findIndex_member [OF assms, of ?P] by blast
  note del = file_deletePost_found [OF k]
  show "fst (file_deletePost (FilePost.id filePost) r) = Resolved (FilePost.id filePost)"
    by (simp add: del)
  assume "length (filter ?P (file_stored r)) = 1"
  then have "\<forall>x\<in>set (splice1 k (file_stored r)). \<not> ?P x"
    by (rule filter_single_splice1 [OF k])
  then have "find ?P (splice1 k (file_stored r)) = None"
    by (simp only: find_None_iff) blast
  then show "fst (file_getPostById (FilePost.id filePost)
               (snd (file_deletePost (FilePost.id filePost) r))) = Resolved None"
    by (simp add: del file_getPostById_eq)
qed

section \<open>Updating or deleting a post that is not stored\<close>

text \<open>
  Claim C1. For every backend and every id that no stored record matches, \<open>updatePost\<close>
  and \<open>deletePost\<close> fail with a NotFound error; they never complete silently and never
  stay pending. The file repository does so (\<open>file_updatePost_notFound\<close>,
  \<open>file_deletePost_notFound\<close>). The in-memory repository does not: on the seed, where
  no record has id 3, \<open>deletePost(3)\<close> leaves its promise pending and \<open>updatePost\<close> with
  id 3 resolves, after overwriting the first record; on an empty list that \<open>updatePost\<close>
  stays pending as well.
\<close>

theorem mem_notFound_never_rejects:
  "mem_deletePost 3 mem_posts = (Pending, mem_posts)
   \<and> mem_updatePost t
         \<lparr> UpdatePostModel.id = 3, title = ''T'', description = ''D'', body = ''B'' \<rparr> mem_posts =
       (Resolved
          \<lparr> PostModel.id = 1, title = ''T'', description = ''D'', body = ''B'',
            createdBy = ''johndoe'', created = date_2021_01_01, updated = t \<rparr>,
        [\<lparr> MemoryPost.id = ''1'', post_title = ''T'', post_body = ''B'',
           post_description = ''D'', post_created = DateText date_2021_01_01,
           post_updated = DateText t, username = ''johndoe'' \<rparr>,
         \<lparr> MemoryPost.id = ''2'', post_title = ''Second Post'',
           post_body = ''This is the second post'',
           post_description = ''This is the second post'',
           post_created = DateText date_2021_01_01,
           post_updated = DateText date_2021_01_01, username = ''janedoe'' \<rparr>])
   \<and> mem_updatePost t
         \<lparr> UpdatePostModel.id = 3, title = ''T'', description = ''D'', body = ''B'' \<rparr> [] =
       (Pending, [])"
  by (simp add: mem_deletePost_def mem_updatePost_def eval_defs)

section \<open>Updating a stored post\<close>

text \<open>
  Claim C2. For every backend and every stored post \<open>X\<close>, \<open>updatePost\<close> with the id of
  \<open>X\<close> yields a post with the new title, description and body and with the id, author
  and creation time of \<open>X\<close>. The file repository updates the first record with that id
  (\<open>file_updatePost_found\<close>). The in-memory repository does not look at the id: on the
  seed, \<open>updatePost\<close> with id 2 rewrites the first record and returns a post with id 1
  and author johndoe, and the post with id 2 is afterwards what it was.
\<close>

theorem mem_updatePost_wrong_record:
  "mem_updatePost t
     \<lparr> UpdatePostModel.id = 2, title = ''T'', description = ''D'', body = ''B'' \<rparr> mem_posts =
       (Resolved
          \<lparr> PostModel.id = 1, title = ''T'', description = ''D'', body = ''B'',
            createdBy = ''johndoe'', created = date_2021_01_01, updated = t \<rparr>,
        [\<lparr> MemoryPost.id = ''1'', post_title = ''T'', post_body = ''B'',
           post_description = ''D'', post_created = DateText date_2021_01_01,
           post_updated = DateText t, username = ''johndoe'' \<rparr>,
         \<lparr> MemoryPost.id = ''2'', post_title = ''Second Post'',
           post_body = ''This is the second post'',
           post_description = ''This is the second post'',
           post_created = DateText date_2021_01_01,
           post_updated = DateText date_2021_01_01, username = ''janedoe'' \<rparr>])
   \<and> fst (mem_getPostById 2 mem_posts) = Resolved (Some second_post)"
  by (simp add: mem_updatePost_def mem_getPostById_def second_post_def eval_defs)

section \<open>Reading back a post that was just created\<close>

text \<open>
  Claim C3, as amended. \<open>createPost\<close> gives the new post the number of stored records
  plus one as its id. If no stored record carries that id already, then \<open>createPost\<close>
  resolves with a post \<open>X\<close> and \<open>getPostById(X.id)\<close> on the state it leaves resolves with
  \<open>X\<close>, in both backends and in every state.
\<close>

theorem createPost_then_getPostById:
  "((\<forall>p\<in>set posts. MemoryPost.id p \<noteq> js_String (JNum (int (length posts) + 1)))
      \<longrightarrow> (\<exists>X. fst (mem_createPost t1 t2 post posts) = Resolved X
             \<and> fst (mem_getPostById (PostModel.id X) (snd (mem_createPost t1 t2 post posts))) =
                 Resolved (Some X)))
   \<and> ((\<forall>filePost\<in>set (file_stored r). FilePost.id filePost \<noteq> int (length (file_stored r)) + 1)
      \<longrightarrow> (\<exists>X. fst (file_createPost t1 t2 post r) = Resolved X
             \<and> fst (file_getPostById (PostModel.id X) (snd (file_createPost t1 t2 post r))) =
                 Resolved (Some X)))"
proof (intro conjI impI)
  assume fresh: "\<forall>p\<in>set posts. MemoryPost.id p \<noteq> js_String (JNum (int (length posts) + 1))"
  let ?new = "\<lparr> MemoryPost.id = js_String (JNum (int (length posts) + 1)),
           post_title = CreatePostModel.title post,
           post_body = CreatePostModel.body post,
           post_description = CreatePostModel.description post,
           post_created = toISOString t1,
           post_updated = toISOString t2,
           username = CreatePostModel.createdBy post \<rparr>"
  have "find (\<lambda>p. MemoryPost.id p = js_String (JNum (int (length posts) + 1))) (posts @ [?new])
          = Some ?new"
    using fresh by (intro find_snoc_new) (simp_all del: js_String.simps)
  then show "\<exists>X. fst (mem_createPost t1 t2 post posts) = Resolved X
             \<and> fst (mem_getPostById (PostModel.id X) (snd (mem_createPost t1 t2 post posts))) =
                 Resolved (Some X)"
    by (simp add: mem_createPost_eq mem_getPostById_eq inMemoryPostToPostModel_def
        js_Number_js_String toISOString_def del: js_String.simps)
next
  assume fresh: "\<forall>filePost\<in>set (file_stored r). FilePost.id filePost \<noteq> int (length (file_stored r)) + 1"
  let ?new = "\<lparr> FilePost.id = int (length (file_stored r)) + 1,
                FilePost.title = CreatePostModel.title post,
                FilePost.desc = CreatePostModel.description post,
                FilePost.body = CreatePostModel.body post,
                FilePost.author = CreatePostModel.createdBy post,
                FilePost.added = t1,
                FilePost.updated = t2 \<rparr>"
  have "find (\<lambda>filePost. FilePost.id filePost = int (length (file_stored r)) + 1)
          (file_stored r @ [?new]) = Some ?new"
    using fresh by (intro find_snoc_new) simp_all
  then show "\<exists>X. fst (file_createPost t1 t2 post r) = Resolved X
             \<and> fst (file_getPostById (PostModel.id X) (snd (file_createPost t1 t2 post r))) =
                 Resolved (Some X)"
    by (simp add: file_createPost_eq file_getPostById_eq filePostToPostModel_def)
qed

text \<open>The amended claim on the in-memory seed and on a file with one record.\<close>

theorem createPost_then_getPostById_witness:
  "js_String (JNum (int (length mem_posts) + 1)) \<notin> MemoryPost.id ` set mem_posts
   \<and> (\<exists>X. fst (mem_createPost 1 2 sample_post mem_posts) = Resolved X
          \<and> fst (mem_getPostById (PostModel.id X) (snd (mem_createPost 1 2 sample_post mem_posts))) =
              Resolved (Some X))
   \<and> int (length (file_stored (file_new [sample_filePost]))) + 1
         \<notin> FilePost.id ` set (file_stored (file_new [sample_filePost]))
   \<and> (\<exists>X. fst (file_createPost 1 2 sample_post (file_new [sample_filePost])) = Resolved X
          \<and> fst (file_getPostById (PostModel.id X)
                (snd (file_createPost 1 2 sample_post (file_new [sample_filePost])))) =
              Resolved (Some X))"
  using createPost_then_getPostById [of mem_posts 1 2 sample_post "file_new [sample_filePost]"]
  by (simp add: mem_posts_def sample_filePost_def digits.simps digit_def)

text \<open>
  The claim as it was stated fails after a deletion. In the in-memory repository, after
  \<open>deletePost(1)\<close> on the seed one record is left, with id 2; \<open>createPost\<close> returns a post
  with id 2, and \<open>getPostById(2)\<close> returns the older post. In the file repository the
  same happens after two posts have been created in an empty file and the first one
  deleted.
\<close>

theorem createPost_then_getPostById_counterexample:
  "fst (mem_createPost 5 5 sample_post (mem_run [DeletePost 1])) = Resolved (sample_result 2 5 5)
   \<and> fst (mem_getPostById 2 (snd (mem_createPost 5 5 sample_post (mem_run [DeletePost 1])))) =
       Resolved (Some second_post)
   \<and> second_post \<noteq> sample_result 2 5 5
   \<and> fst (file_createPost 5 5 sample_post
        (file_run [] [CreatePost 1 1 sample_post, CreatePost 2 2 sample_post, DeletePost 1])) =
       Resolved (sample_result 2 5 5)
   \<and> fst (file_getPostById 2 (snd (file_createPost 5 5 sample_post
        (file_run [] [CreatePost 1 1 sample_post, CreatePost 2 2 sample_post, DeletePost 1])))) =
       Resolved (Some (sample_result 2 2 2))
   \<and> sample_result 2 2 2 \<noteq> sample_result 2 5 5"
  by (simp add: mem_run_def file_run_def mem_deletePost_def mem_createPost_def mem_getPostById_def
      file_createPost_def file_getPostById_def file_deletePost_def file_new_def file_loadPosts_def
      filePostToPostModel_def splice1_def sample_post_def sample_result_def second_post_def
      Let_def eval_defs)

section \<open>The post that \<open>createPost\<close> returns\<close>

text \<open>
  Claim C4, as amended. In both backends and in every state, \<open>createPost(P)\<close> resolves
  with a post whose id is the number of stored records plus one, whose title,
  description, body and author are those of \<open>P\<close>, whose \<open>created\<close> is the first clock
  reading of the call and whose \<open>updated\<close> is the second one. As long as no \<open>deletePost\<close>
  has been called (from the in-memory seed, or from a file in which no id exceeds the
  number of records), no stored post carries the id that the next \<open>createPost\<close> assigns.
\<close>

theorem createPost_result:
  "fst (mem_createPost t1 t2 post posts) =
     Resolved
        \<lparr> PostModel.id = int (length posts) + 1,
          PostModel.title = CreatePostModel.title post,
          PostModel.description = CreatePostModel.description post,
          PostModel.body = CreatePostModel.body post,
          PostModel.createdBy = CreatePostModel.createdBy post,
          PostModel.created = t1,
          PostModel.updated = t2 \<rparr>
   \<and> fst (file_createPost t1 t2 post r) =
     Resolved
        \<lparr> PostModel.id = int (length (file_stored r)) + 1,
          PostModel.title = CreatePostModel.title post,
          PostModel.description = CreatePostModel.description post,
          PostModel.body = CreatePostModel.body post,
          PostModel.createdBy = CreatePostModel.createdBy post,
          PostModel.created = t1,
          PostModel.updated = t2 \<rparr>
   \<and> ((\<forall>op\<in>set ops. \<not> is_delete op) \<longrightarrow>
        (\<forall>X\<in>set (map inMemoryPostToPostModel (mem_run ops)).
            PostModel.id X \<noteq> int (length (mem_run ops)) + 1))
   \<and> ((\<forall>filePost\<in>set content. FilePost.id filePost \<le> int (length content))
        \<and> (\<forall>op\<in>set ops. \<not> is_delete op) \<longrightarrow>
        (\<forall>X\<in>set (map filePostToPostModel (file_stored (file_run content ops))).
            PostModel.id X \<noteq> int (length (file_stored (file_run content ops))) + 1))"
proof (intro conjI impI)
  assume "\<forall>op\<in>set ops. \<not> is_delete op"
  then have "mem_bounded (mem_run ops)"
    by (rule mem_run_bounded)
  then show "\<forall>X\<in>set (map inMemoryPostToPostModel (mem_run ops)).
            PostModel.id X \<noteq> int (length (mem_run ops)) + 1"
    by (fastforce simp: mem_bounded_def)
next
  assume "(\<forall>filePost\<in>set content. FilePost.id filePost \<le> int (length content))
        \<and> (\<forall>op\<in>set ops. \<not> is_delete op)"
  then have "file_bounded (file_stored (file_new content))" and "\<forall>op\<in>set ops. \<not> is_delete op"
    by (simp_all add: file_bounded_def)
  then have "file_bounded (file_stored (file_run content ops))"
    unfolding file_run_def by (rule file_bounded_foldl)
  then show "\<forall>X\<in>set (map filePostToPostModel (file_stored (file_run content ops))).
            PostModel.id X \<noteq> int (length (file_stored (file_run content ops))) + 1"
    by (fastforce simp: file_bounded_def)
qed (simp_all add: mem_createPost_eq file_createPost_eq del: js_String.simps)

text \<open>The amended claim after one \<open>createPost\<close>, on the seed and on a file with one record.\<close>

theorem createPost_result_witness:
  "\<not> is_delete (CreatePost 1 2 sample_post)
   \<and> int (length (mem_run [CreatePost 1 2 sample_post])) + 1
         \<notin> PostModel.id ` set (map inMemoryPostToPostModel (mem_run [CreatePost 1 2 sample_post]))
   \<and> FilePost.id sample_filePost \<le> int (length [sample_filePost])
   \<and> int (length (file_stored (file_run [sample_filePost] [CreatePost 1 2 sample_post]))) + 1
         \<notin> PostModel.id ` set (map filePostToPostModel
             (file_stored (file_run [sample_filePost] [CreatePost 1 2 sample_post])))"
proof -
  note r = createPost_result [of 1 2 sample_post mem_posts "file_new [sample_filePost]"
      "[CreatePost 1 2 sample_post]" "[sample_filePost]"]
  have h: "FilePost.id sample_filePost \<le> int (length [sample_filePost])"
    by (simp add: sample_filePost_def)
  from r have m: "\<forall>X\<in>set (map inMemoryPostToPostModel (mem_run [CreatePost 1 2 sample_post])).
      PostModel.id X \<noteq> int (length (mem_run [CreatePost 1 2 sample_post])) + 1"
    by simp
  from r h have f: "\<forall>X\<in>set (map filePostToPostModel
        (file_stored (file_run [sample_filePost] [CreatePost 1 2 sample_post]))).
      PostModel.id X \<noteq> int (length (file_stored (file_run [sample_filePost] [CreatePost 1 2 sample_post]))) + 1"
    by simp
  from m f h show ?thesis
    by (simp add: image_iff) metis
qed

text \<open>
  The claim as it was stated asks for \<open>created = updated\<close>. \<open>createPost\<close> reads the clock
  twice, once for each field; when the clock shows the next millisecond at the second
  reading, the two fields differ.
\<close>

theorem createPost_result_counterexample:
  "fst (mem_createPost 1700000000000 1700000000001 sample_post mem_posts) =
     Resolved (sample_result 3 1700000000000 1700000000001)
   \<and> fst (file_createPost 1700000000000 1700000000001 sample_post (file_new [])) =
     Resolved (sample_result 1 1700000000000 1700000000001)
   \<and> PostModel.created (sample_result 3 1700000000000 1700000000001) \<noteq>
       PostModel.updated (sample_result 3 1700000000000 1700000000001)
   \<and> PostModel.created (sample_result 1 1700000000000 1700000000001) \<noteq>
       PostModel.updated (sample_result 1 1700000000000 1700000000001)"
  by (simp add: mem_createPost_eq file_createPost_eq sample_post_def sample_result_def
      mem_posts_def del: js_String.simps)

section \<open>The id that \<open>createPost\<close> assigns\<close>

text \<open>
  Claim C5. In both backends \<open>createPost\<close> gives the new record the number of stored
  records plus one as its id: as a decimal numeral in the record of the in-memory
  repository, as a number in the record of the file repository, and as a number in the
  post returned. On the in-memory seed the post returned has id 3. On a file holding the
  empty array the post returned has id 1, and the file afterwards holds one record, whose
  id is 1.
\<close>

theorem createPost_assigns_length_plus_one:
  "map MemoryPost.id (snd (mem_createPost t1 t2 post posts)) =
     map MemoryPost.id posts @ [js_String (JNum (int (length posts) + 1))]
   \<and> (\<exists>X. fst (mem_createPost t1 t2 post posts) = Resolved X
          \<and> PostModel.id X = int (length posts) + 1)
   \<and> map FilePost.id (file_stored (snd (file_createPost t1 t2 post r))) =
       map FilePost.id (file_stored r) @ [int (length (file_stored r)) + 1]
   \<and> (\<exists>X. fst (file_createPost t1 t2 post r) = Resolved X
          \<and> PostModel.id X = int (length (file_stored r)) + 1)
   \<and> (\<exists>X. fst (mem_createPost t1 t2 post mem_posts) = Resolved X \<and> PostModel.id X = 3)
   \<and> (\<exists>X. fst (file_createPost t1 t2 post (file_new [])) = Resolved X \<and> PostModel.id X = 1)
   \<and> map FilePost.id (db_json (snd (file_createPost t1 t2 post (file_new [])))) = [1]"
  by (simp add: mem_createPost_eq file_createPost_eq mem_posts_def
      del: js_String.simps)

section \<open>Looking up an id that is not stored\<close>

text \<open>
  Claim C6. In both backends, when no stored record matches the id, \<open>getPostById\<close>
  resolves with the absent value (\<open>undefined\<close>, here \<open>None\<close>) and leaves the stored
  collection as it is. A promise resolved with the absent value is not a rejected one, so
  the caller can tell "nothing found" from a failure.
\<close>

theorem getPostById_absent:
  "((\<forall>post\<in>set posts. MemoryPost.id post \<noteq> js_String (JNum i))
      \<longrightarrow> mem_getPostById i posts = (Resolved None, posts))
   \<and> ((\<forall>filePost\<in>set (file_stored r). FilePost.id filePost \<noteq> i)
      \<longrightarrow> fst (file_getPostById i r) = Resolved None
          \<and> file_stored (snd (file_getPostById i r)) = file_stored r)
   \<and> Resolved None \<noteq> (Rejected e :: PostModel option promise)"
proof -
  have "find (\<lambda>post. MemoryPost.id post = js_String (JNum i)) posts = None"
    if "\<forall>post\<in>set posts. MemoryPost.id post \<noteq> js_String (JNum i)"
    using that by (simp add: find_None_iff del: js_String.simps)
  moreover have "find (\<lambda>filePost. FilePost.id filePost = i) (file_stored r) = None"
    if "\<forall>filePost\<in>set (file_stored r). FilePost.id filePost \<noteq> i"
    using that by (simp add: find_None_iff)
  ultimately show ?thesis
    by (simp add: mem_getPostById_eq file_getPostById_eq del: js_String.simps)
qed

text \<open>The id 3 on the in-memory seed and on a file with one record, whose id is 1.\<close>

theorem getPostById_absent_witness:
  "js_String (JNum 3) \<notin> MemoryPost.id ` set mem_posts
   \<and> mem_getPostById 3 mem_posts = (Resolved None, mem_posts)
   \<and> 3 \<notin> FilePost.id ` set (file_stored (file_new [sample_filePost]))
   \<and> fst (file_getPostById 3 (file_new [sample_filePost])) = Resolved None"
  using getPostById_absent [of mem_posts 3 "file_new [sample_filePost]"]
  by (simp add: mem_posts_def sample_filePost_def digits.simps digit_def)

section \<open>Deleting a stored post\<close>

text \<open>
  Claim C7, as amended. In every state the in-memory repository reaches from its seed,
  and in every state of the file repository, \<open>deletePost(X.id)\<close> for a stored post \<open>X\<close>
  resolves with \<open>X.id\<close>; if exactly one stored record carries that id, a following
  \<open>getPostById(X.id)\<close> resolves with the absent value.
\<close>

theorem deletePost_then_getPostById:
  "(post \<in> set (mem_run ops) \<longrightarrow>
      fst (mem_deletePost (PostModel.id (inMemoryPostToPostModel post)) (mem_run ops)) =
        Resolved (PostModel.id (inMemoryPostToPostModel post))
      \<and> (length (filter (\<lambda>p. MemoryPost.id p = MemoryPost.id post) (mem_run ops)) = 1 \<longrightarrow>
           fst (mem_getPostById (PostModel.id (inMemoryPostToPostModel post))
                 (snd (mem_deletePost (PostModel.id (inMemoryPostToPostModel post)) (mem_run ops)))) =
             Resolved None))
   \<and> (filePost \<in> set (file_stored r) \<longrightarrow>
      fst (file_deletePost (PostModel.id (filePostToPostModel filePost)) r) =
        Resolved (PostModel.id (filePostToPostModel filePost))
      \<and> (length (filter (\<lambda>p. FilePost.id p = FilePost.id filePost) (file_stored r)) = 1 \<longrightarrow>
           fst (file_getPostById (PostModel.id (filePostToPostModel filePost))
                 (snd (file_deletePost (PostModel.id (filePostToPostModel filePost)) r))) =
             Resolved None))"
  using mem_delete_stored [OF mem_run_canonical, of post ops] file_delete_stored [of filePost r]
  by simp

text \<open>The first post of the in-memory seed, and the record of a file with one record.\<close>

theorem deletePost_then_getPostById_witness:
  "mem_posts ! 0 \<in> set (mem_run [])
   \<and> length (filter (\<lambda>p. MemoryPost.id p = MemoryPost.id (mem_posts ! 0)) (mem_run [])) = 1
   \<and> fst (mem_deletePost (PostModel.id (inMemoryPostToPostModel (mem_posts ! 0))) (mem_run [])) =
        Resolved (PostModel.id (inMemoryPostToPostModel (mem_posts ! 0)))
   \<and> fst (mem_getPostById (PostModel.id (inMemoryPostToPostModel (mem_posts ! 0)))
           (snd (mem_deletePost (PostModel.id (inMemoryPostToPostModel (mem_posts ! 0))) (mem_run [])))) =
        Resolved None
   \<and> sample_filePost \<in> set (file_stored (file_new [sample_filePost]))
   \<and> length (filter (\<lambda>p. FilePost.id p = FilePost.id sample_filePost)
        (file_stored (file_new [sample_filePost]))) = 1
   \<and> fst (file_deletePost (PostModel.id (filePostToPostModel sample_filePost))
          (file_new [sample_filePost])) =
        Resolved (PostModel.id (filePostToPostModel sample_filePost))
   \<and> fst (file_getPostById (PostModel.id (filePostToPostModel sample_filePost))
          (snd (file_deletePost (PostModel.id (filePostToPostModel sample_filePost))
             (file_new [sample_filePost])))) = Resolved None"
  using deletePost_then_getPostById [of "mem_posts ! 0" "[]" sample_filePost "file_new [sample_filePost]"]
  by (simp add: mem_run_def mem_posts_def)

text \<open>
  The claim as it was stated fails where an id has been given out twice. In \<open>mem_reused\<close>
  and in \<open>file_reused\<close> two stored posts have id 2; \<open>deletePost(2)\<close> resolves with 2 and
  removes the first of them, and \<open>getPostById(2)\<close> then resolves with the second.
\<close>

theorem deletePost_then_getPostById_counterexample:
  "fst (mem_getAllPosts mem_reused) = Resolved [second_post, sample_result 2 5 5]
   \<and> fst (mem_deletePost 2 mem_reused) = Resolved 2
   \<and> fst (mem_getPostById 2 (snd (mem_deletePost 2 mem_reused))) =
       Resolved (Some (sample_result 2 5 5))
   \<and> fst (file_getAllPosts file_reused) = Resolved [sample_result 2 2 2, sample_result 2 5 5]
   \<and> fst (file_deletePost 2 file_reused) = Resolved 2
   \<and> fst (file_getPostById 2 (snd (file_deletePost 2 file_reused))) =
       Resolved (Some (sample_result 2 5 5))"
  by (simp add: mem_reused_def file_reused_def mem_run_def file_run_def
      mem_deletePost_def mem_createPost_def mem_getPostById_def mem_getAllPosts_def
      file_createPost_def file_getPostById_def file_deletePost_def file_getAllPosts_def
      file_new_def file_loadPosts_def filePostToPostModel_def splice1_def
      sample_post_def sample_result_def second_post_def Let_def eval_defs)

section \<open>Timestamps and ids along a sequence of operations\<close>

text \<open>
  Claim C8, as amended. Let the clock readings of a sequence of operations never
  decrease, starting from the date of the seed for the in-memory repository, and from a
  time \<open>t0\<close> for a file repository whose file holds only records that were not updated
  before they were created nor after \<open>t0\<close>. Then every stored post has
  \<open>created \<le> updated\<close> after the sequence. No operation changes the id of a stored
  record, in any state: the two reads leave the collection as it is, \<open>updatePost\<close> leaves
  the sequence of ids as it is, \<open>createPost\<close> appends a record to the records there
  were, and \<open>deletePost\<close> removes one record or none.
\<close>

theorem timestamps_and_ids:
  "(sorted (date_2021_01_01 # concat (map readings ops)) \<longrightarrow>
      (\<forall>X\<in>set (map inMemoryPostToPostModel (mem_run ops)).
          PostModel.created X \<le> PostModel.updated X))
   \<and> ((\<forall>filePost\<in>set content. FilePost.added filePost \<le> FilePost.updated filePost
           \<and> FilePost.updated filePost \<le> t0)
        \<and> sorted (t0 # concat (map readings ops)) \<longrightarrow>
      (\<forall>X\<in>set (map filePostToPostModel (file_stored (file_run content ops))).
          PostModel.created X \<le> PostModel.updated X))
   \<and> mem_step posts GetAllPosts = posts
   \<and> mem_step posts (GetPostById i) = posts
   \<and> map MemoryPost.id (mem_step posts (UpdatePost t u)) = map MemoryPost.id posts
   \<and> take (length posts) (mem_step posts (CreatePost t1 t2 post)) = posts
   \<and> (mem_step posts (DeletePost i) = posts
        \<or> (\<exists>k. mem_step posts (DeletePost i) = splice1 k posts))
   \<and> file_stored (file_step r GetAllPosts) = file_stored r
   \<and> file_stored (file_step r (GetPostById i)) = file_stored r
   \<and> map FilePost.id (file_stored (file_step r (UpdatePost t u))) = map FilePost.id (file_stored r)
   \<and> take (length (file_stored r)) (file_stored (file_step r (CreatePost t1 t2 post))) = file_stored r
   \<and> (file_stored (file_step r (DeletePost i)) = file_stored r
        \<or> (\<exists>k. file_stored (file_step r (DeletePost i)) = splice1 k (file_stored r)))"
proof (intro conjI impI)
  assume "sorted (date_2021_01_01 # concat (map readings ops))"
  with mem_timely_mem_posts
  have "mem_timely (last (date_2021_01_01 # concat (map readings ops))) (mem_run ops)"
    unfolding mem_run_def by (rule mem_timely_foldl)
  then show "\<forall>X\<in>set (map inMemoryPostToPostModel (mem_run ops)).
          PostModel.created X \<le> PostModel.updated X"
    by (simp add: mem_timely_def inMemoryPostToPostModel_def)
next
  assume "(\<forall>filePost\<in>set content. FilePost.added filePost \<le> FilePost.updated filePost
           \<and> FilePost.updated filePost \<le> t0)
        \<and> sorted (t0 # concat (map readings ops))"
  then have "file_timely t0 (file_stored (file_new content))"
    and "sorted (t0 # concat (map readings ops))"
    by (simp_all add: file_timely_def)
  then have "file_timely (last (t0 # concat (map readings ops))) (file_stored (file_run content ops))"
    unfolding file_run_def by (rule file_timely_foldl)
  then show "\<forall>X\<in>set (map filePostToPostModel (file_stored (file_run content ops))).
          PostModel.created X \<le> PostModel.updated X"
    by (simp add: file_timely_def filePostToPostModel_def)
next
  show "mem_step posts (DeletePost i) = posts
        \<or> (\<exists>k. mem_step posts (DeletePost i) = splice1 k posts)"
    using mem_deletePost_cases [of i posts] by simp
next
  show "file_stored (file_step r (DeletePost i)) = file_stored r
        \<or> (\<exists>k. file_stored (file_step r (DeletePost i)) = splice1 k (file_stored r))"
    using file_deletePost_state [of i r] by simp
qed (simp_all add: mem_getAllPosts_def mem_getPostById_eq mem_updatePost_ids mem_createPost_eq
      file_getAllPosts_eq file_getPostById_eq file_updatePost_ids file_createPost_eq
      del: js_String.simps)

text \<open>
  A \<open>createPost\<close> and a later \<open>updatePost\<close>, on the seed and on a file with one record.
\<close>

theorem timestamps_and_ids_witness:
  "sorted (date_2021_01_01 # concat (map readings
      [CreatePost 1700000000000 1700000000001 sample_post,
       UpdatePost 1700000000002 (sample_update 1)]))
   \<and> list_all (\<lambda>X. PostModel.created X \<le> PostModel.updated X)
        (map inMemoryPostToPostModel (mem_run
          [CreatePost 1700000000000 1700000000001 sample_post,
           UpdatePost 1700000000002 (sample_update 1)]))
   \<and> FilePost.added sample_filePost \<le> FilePost.updated sample_filePost
   \<and> FilePost.updated sample_filePost \<le> date_2021_01_01
   \<and> list_all (\<lambda>X. PostModel.created X \<le> PostModel.updated X)
        (map filePostToPostModel (file_stored (file_run [sample_filePost]
          [CreatePost 1700000000000 1700000000001 sample_post,
           UpdatePost 1700000000002 (sample_update 1)])))"
  using timestamps_and_ids [of
      "[CreatePost 1700000000000 1700000000001 sample_post,
       UpdatePost 1700000000002 (sample_update 1)]"
      "[sample_filePost]" date_2021_01_01]
  by (simp add: date_2021_01_01_def sample_filePost_def list_all_iff)

text \<open>
  The claim as it was stated has no condition on the clock or on the file. In a file
  repository started on the empty array, a post created at one time and updated when the
  clock shows one hour less is stored with \<open>updated\<close> before \<open>created\<close>. A file repository
  hands out what its file holds, also a record whose \<open>updated\<close> is before its \<open>added\<close>.
  In the in-memory repository a post is stored with \<open>updated\<close> before \<open>created\<close> when the
  second clock reading of \<open>createPost\<close> is before the first.
\<close>

theorem timestamps_and_ids_counterexample:
  "file_stored (file_run [] [CreatePost 1700000000000 1700000000000 sample_post,
       UpdatePost 1699996400000 (sample_update 1)]) =
     [\<lparr> FilePost.id = 1, title = ''T2'', desc = ''D2'', body = ''B2'', author = ''alice'',
        added = 1700000000000, updated = 1699996400000 \<rparr>]
   \<and> \<not> (1700000000000 :: timestamp) \<le> 1699996400000
   \<and> fst (file_getAllPosts (file_run
       [\<lparr> FilePost.id = 1, title = ''a'', desc = ''b'', body = ''c'', author = ''d'',
          added = 1700000000000, updated = 1600000000000 \<rparr>] [])) =
     Resolved [\<lparr> PostModel.id = 1, title = ''a'', description = ''b'', body = ''c'',
        createdBy = ''d'', created = 1700000000000, updated = 1600000000000 \<rparr>]
   \<and> \<not> (1700000000000 :: timestamp) \<le> 1600000000000
   \<and> map inMemoryPostToPostModel (mem_run
       [CreatePost 1700000000001 1700000000000 sample_post]) ! 2 =
     sample_result 3 1700000000001 1700000000000
   \<and> \<not> (1700000000001 :: timestamp) \<le> 1700000000000"
  by (simp add: file_run_def mem_run_def file_createPost_def file_updatePost_def
      file_getAllPosts_def file_loadPosts_def file_new_def file_stored_def mem_createPost_def
      filePostToPostModel_def sample_post_def sample_update_def sample_result_def
      Let_def eval_defs)

section \<open>Reading all posts twice\<close>

text \<open>
  Claim C9. In both backends and in every state, \<open>getAllPosts\<close> resolves with the stored
  posts in their stored order, a second call right after the first resolves with the
  same sequence, and the stored collection (and the file) is what it was.
\<close>

theorem getAllPosts_twice:
  "fst (mem_getAllPosts (snd (mem_getAllPosts posts))) = fst (mem_getAllPosts posts)
   \<and> snd (mem_getAllPosts posts) = posts
   \<and> fst (mem_getAllPosts posts) = Resolved (map inMemoryPostToPostModel posts)
   \<and> fst (file_getAllPosts (snd (file_getAllPosts r))) = fst (file_getAllPosts r)
   \<and> file_stored (snd (file_getAllPosts r)) = file_stored r
   \<and> db_json (snd (file_getAllPosts r)) = db_json r
   \<and> fst (file_getAllPosts r) = Resolved (map filePostToPostModel (file_stored r))"
  by (simp add: mem_getAllPosts_def file_getAllPosts_eq)

section \<open>The in-memory \<open>updatePost\<close> ignores the id it is given\<close>

text \<open>
  Claim C10. In the in-memory repository, whenever the stored list is not empty,
  \<open>updatePost(u)\<close> resolves, whatever \<open>u.id\<close> is: the predicate of \<open>findIndex\<close>
  compares each record's id with itself, so the first record is the one found. Its
  title, description and body are replaced by those of \<open>u\<close> and its \<open>post_updated\<close>
  by the clock reading; the rest of the list is left as it was. The post returned
  carries the id, the author and the creation time of that first record, not \<open>u.id\<close>.
\<close>

theorem mem_updatePost_first_record:
  "mem_updatePost t u (p # rest) =
     (Resolved
        \<lparr> PostModel.id = js_Number (MemoryPost.id p),
          PostModel.title = UpdatePostModel.title u,
          PostModel.description = UpdatePostModel.description u,
          PostModel.body = UpdatePostModel.body u,
          PostModel.createdBy = username p,
          PostModel.created = new_Date (post_created p),
          PostModel.updated = t \<rparr>,
      p \<lparr> post_title := UpdatePostModel.title u,
          post_body := UpdatePostModel.body u,
          post_description := UpdatePostModel.description u,
          post_updated := toISOString t \<rparr> # rest)"
  by (simp add: mem_updatePost_def inMemoryPostToPostModel_def toISOString_def)

end
